theory Spec2Isabelle
  imports Complex_Main
begin

section \<open>PID controlled servo emulator\<close>

text \<open>
  A shallow embedding of \<^verbatim>\<open>pid_controller.hpp\<close>, \<^verbatim>\<open>tof_sensor.hpp\<close> and
  \<^verbatim>\<open>servo.hpp\<close>. Each struct is a record, each member function takes the struct
  and returns the updated one.

  The source computes with \<^verbatim>\<open>double\<close>. Here a \<^verbatim>\<open>double\<close> is a \<^typ>\<open>real\<close>:
  arithmetic is exact, and rounding, overflow, infinities and NaN are not modelled.
  The one operation of the source whose result is not a finite number on finite
  arguments without any overflow, the division by an input range of zero in
  \<^verbatim>\<open>servo::input_ratio\<close>, is made explicit with an option type.

  The sensor and the controller are given a second time, over doubles that have
  NaN and the two infinities, for the two properties that turn on them: the
  value of a sensor inside its window and the output of the controller between
  its bounds.
\<close>

subsection \<open>tof\_sensor.hpp\<close>

text \<open>
  The fields \<^verbatim>\<open>min\<close> and \<^verbatim>\<open>max\<close> of the source are \<open>min_f\<close> and \<open>max_f\<close> here,
  since \<open>min\<close> and \<open>max\<close> are constants of HOL.
\<close>

record tof_sensor =
  min_f :: real
  max_f :: real
  val :: real

definition DEFAULT_MIN :: real where
  "DEFAULT_MIN = 0.0"

definition DEFAULT_MAX :: real where
  "DEFAULT_MAX = 1023.0"

text \<open>The default constructor: the member initialisers of the struct.\<close>

definition tof_sensor_default :: tof_sensor where
  "tof_sensor_default = \<lparr>min_f = DEFAULT_MIN, max_f = DEFAULT_MAX, val = 0\<rparr>"

text \<open>\<^verbatim>\<open>tof_sensor::init\<close>: both tests read the arguments, not the stored fields.\<close>

definition tof_init :: "real \<Rightarrow> real \<Rightarrow> tof_sensor \<Rightarrow> tof_sensor" where
  "tof_init sensor_min sensor_max s =
     (let s1 = s\<lparr>min_f := (if sensor_min \<ge> 0 then sensor_min else 0)\<rparr>;
          s2 = s1\<lparr>max_f := (if sensor_max > sensor_min then sensor_max else 1023)\<rparr>
      in s2)"

text \<open>The constructor with two arguments: the member initialisers, then \<open>init\<close>.\<close>

definition tof_sensor_new :: "real \<Rightarrow> real \<Rightarrow> tof_sensor" where
  "tof_sensor_new sensor_min sensor_max = tof_init sensor_min sensor_max tof_sensor_default"

definition check_sensor_value :: "tof_sensor \<Rightarrow> tof_sensor" where
  "check_sensor_value s =
     (if val s < min_f s then s\<lparr>val := min_f s\<rparr>
      else if val s > max_f s then s\<lparr>val := max_f s\<rparr>
      else s)"

text \<open>
  \<^verbatim>\<open>tof_sensor::read_from_terminal\<close>, once \<^verbatim>\<open>input::get_double\<close> has returned the
  finite number \<open>v\<close>: the value is stored, then checked.
\<close>

definition read_from_terminal :: "real \<Rightarrow> tof_sensor \<Rightarrow> tof_sensor" where
  "read_from_terminal v s = check_sensor_value (s\<lparr>val := v\<rparr>)"

definition tof_input_range :: "tof_sensor \<Rightarrow> real" where
  "tof_input_range s = max_f s - min_f s"

subsection \<open>pid\_controller.hpp\<close>

record pid_controller =
  target :: real
  "output" :: real
  "input" :: real
  kp :: real
  ki :: real
  kd :: real
  integrate :: real
  derivate :: real
  last_error :: real
  output_min :: real
  output_max :: real

text \<open>The default constructor: every member initialiser is 0.\<close>

definition pid_controller_default :: pid_controller where
  "pid_controller_default =
     \<lparr>target = 0, output = 0, input = 0, kp = 0, ki = 0, kd = 0, integrate = 0,
      derivate = 0, last_error = 0, output_min = 0, output_max = 0\<rparr>"

text \<open>\<^verbatim>\<open>pid_controller::init\<close>, with every defaulted argument written out.\<close>

definition pid_init ::
  "real \<Rightarrow> real \<Rightarrow> real \<Rightarrow> real \<Rightarrow> real \<Rightarrow> real \<Rightarrow> pid_controller \<Rightarrow> pid_controller" where
  "pid_init tg omin omax p i d s =
     s\<lparr>target := tg, output_min := omin, output_max := omax, kp := p, ki := i, kd := d\<rparr>"

text \<open>The constructor with arguments: the member initialisers, then \<open>init\<close>.\<close>

definition pid_controller_new ::
  "real \<Rightarrow> real \<Rightarrow> real \<Rightarrow> real \<Rightarrow> real \<Rightarrow> real \<Rightarrow> pid_controller" where
  "pid_controller_new tg omin omax p i d = pid_init tg omin omax p i d pid_controller_default"

definition check_output :: "pid_controller \<Rightarrow> pid_controller" where
  "check_output s =
     (if output s < output_min s then s\<lparr>output := output_min s\<rparr>
      else if output s > output_max s then s\<lparr>output := output_max s\<rparr>
      else s)"

text \<open>\<^verbatim>\<open>pid_controller::regulate\<close>, one state per assignment of the source.\<close>

definition regulate :: "real \<Rightarrow> pid_controller \<Rightarrow> pid_controller" where
  "regulate new_input s =
     (let err = target s - new_input;
          s1 = s\<lparr>input := new_input\<rparr>;
          s2 = s1\<lparr>integrate := integrate s1 + err\<rparr>;
          s3 = s2\<lparr>derivate := err - last_error s2\<rparr>;
          s4 = s3\<lparr>output := target s3 + kp s3 * err + ki s3 * integrate s3
                              + kd s3 * derivate s3\<rparr>;
          s5 = s4\<lparr>last_error := err\<rparr>
      in check_output s5)"

text \<open>A caller that calls \<open>regulate\<close> once for each input of a list, in order.\<close>

fun regulate_all :: "real list \<Rightarrow> pid_controller \<Rightarrow> pid_controller" where
  "regulate_all [] s = s"
| "regulate_all (x # xs) s = regulate_all xs (regulate x s)"

subsection \<open>servo.hpp\<close>

record servo =
  pid :: pid_controller
  left_sensor :: tof_sensor
  right_sensor :: tof_sensor

text \<open>\<^verbatim>\<open>servo::init\<close>, with every defaulted argument written out.\<close>

definition servo_init ::
  "real \<Rightarrow> real \<Rightarrow> real \<Rightarrow> real \<Rightarrow> real \<Rightarrow> real \<Rightarrow> real \<Rightarrow> real \<Rightarrow> servo \<Rightarrow> servo" where
  "servo_init target_angle angle_min angle_max input_min input_max p i d s =
     (let s1 = s\<lparr>pid := pid_init target_angle angle_min angle_max p i d (pid s)\<rparr>;
          s2 = s1\<lparr>left_sensor := tof_init input_min input_max (left_sensor s1)\<rparr>;
          s3 = s2\<lparr>right_sensor := tof_init input_min input_max (right_sensor s2)\<rparr>
      in s3)"

text \<open>The constructor: the three members are default constructed, then \<open>init\<close>.\<close>

definition servo_new ::
  "real \<Rightarrow> real \<Rightarrow> real \<Rightarrow> real \<Rightarrow> real \<Rightarrow> real \<Rightarrow> real \<Rightarrow> real \<Rightarrow> servo" where
  "servo_new target_angle angle_min angle_max input_min input_max p i d =
     servo_init target_angle angle_min angle_max input_min input_max p i d
       \<lparr>pid = pid_controller_default, left_sensor = tof_sensor_default,
        right_sensor = tof_sensor_default\<rparr>"

definition servo_target :: "servo \<Rightarrow> real" where
  "servo_target s = target (pid s)"

definition servo_output :: "servo \<Rightarrow> real" where
  "servo_output s = output (pid s)"

definition input_range :: "servo \<Rightarrow> real" where
  "input_range s = tof_input_range (left_sensor s)"

definition input_difference :: "servo \<Rightarrow> real" where
  "input_difference s = val (left_sensor s) - val (right_sensor s)"

text \<open>
  \<^verbatim>\<open>servo::input_ratio\<close>. With an input range of zero the source divides by zero
  and returns an infinity or NaN, which is no real number: the result is \<open>None\<close>.
\<close>

definition input_ratio :: "servo \<Rightarrow> real option" where
  "input_ratio s =
     (let scaled_input = (input_difference s + input_range s) / 2.0
      in if input_range s = 0 then None else Some (scaled_input / input_range s))"

definition input_mapped :: "servo \<Rightarrow> real option" where
  "input_mapped s =
     (case input_ratio s of
        None \<Rightarrow> None
      | Some ratio \<Rightarrow> Some (ratio * (target (pid s) * 2)))"

text \<open>
  \<^verbatim>\<open>servo::run\<close> without its printing: the two numbers read from the terminal are
  the arguments. The result is \<open>None\<close> when the mapped input is no real number.
\<close>

definition run :: "real \<Rightarrow> real \<Rightarrow> servo \<Rightarrow> servo option" where
  "run left_in right_in s =
     (let s1 = s\<lparr>left_sensor := read_from_terminal left_in (left_sensor s)\<rparr>;
          s2 = s1\<lparr>right_sensor := read_from_terminal right_in (right_sensor s1)\<rparr>
      in case input_mapped s2 of
           None \<Rightarrow> None
         | Some m \<Rightarrow> Some (s2\<lparr>pid := regulate m (pid s2)\<rparr>))"

text \<open>The servo inside \<open>run\<close> after its two readings, before it regulates.\<close>

definition read_inputs :: "real \<Rightarrow> real \<Rightarrow> servo \<Rightarrow> servo" where
  "read_inputs left_in right_in s =
     (let s1 = s\<lparr>left_sensor := read_from_terminal left_in (left_sensor s)\<rparr>;
          s2 = s1\<lparr>right_sensor := read_from_terminal right_in (right_sensor s1)\<rparr>
      in s2)"

text \<open>The constructor of \<open>servo\<close> called with its default arguments.\<close>

definition servo_default :: servo where
  "servo_default = servo_new 90 0 180 0 1023 1 0.01 0.1"

subsection \<open>Doubles with their special values\<close>

text \<open>
  Two properties below turn on NaN. For them the sensor and the controller are
  given a second time, over a type of doubles that has NaN and the two infinities;
  each function is the one above with \<open>_d\<close> added to its name.

  The comparisons are the ones of IEEE 754: a comparison with NaN is false. The
  arithmetic follows IEEE 754 on the special values: NaN in gives NaN out, the sum
  of the two infinities is NaN, zero times an infinity is NaN. A finite result
  whose magnitude is at least \<open>2^1024 - 2^970\<close> is the infinity of its sign, as
  rounding to nearest gives it in binary64; a smaller one is kept as it is, the
  rounding of its mantissa is not modelled. The two zeros are one value.
\<close>

datatype double = NaN | MInf | Fin real | PInf

definition dless :: "double \<Rightarrow> double \<Rightarrow> bool" where
  "dless x y =
     (case x of
        NaN \<Rightarrow> False
      | MInf \<Rightarrow> (case y of NaN \<Rightarrow> False | MInf \<Rightarrow> False | Fin b \<Rightarrow> True | PInf \<Rightarrow> True)
      | Fin a \<Rightarrow> (case y of NaN \<Rightarrow> False | MInf \<Rightarrow> False | Fin b \<Rightarrow> a < b | PInf \<Rightarrow> True)
      | PInf \<Rightarrow> False)"

definition dle :: "double \<Rightarrow> double \<Rightarrow> bool" where
  "dle x y =
     (case x of
        NaN \<Rightarrow> False
      | MInf \<Rightarrow> (case y of NaN \<Rightarrow> False | MInf \<Rightarrow> True | Fin b \<Rightarrow> True | PInf \<Rightarrow> True)
      | Fin a \<Rightarrow> (case y of NaN \<Rightarrow> False | MInf \<Rightarrow> False | Fin b \<Rightarrow> a \<le> b | PInf \<Rightarrow> True)
      | PInf \<Rightarrow> (case y of NaN \<Rightarrow> False | MInf \<Rightarrow> False | Fin b \<Rightarrow> False | PInf \<Rightarrow> True))"

definition dgreater :: "double \<Rightarrow> double \<Rightarrow> bool" where
  "dgreater x y = dless y x"

definition dge :: "double \<Rightarrow> double \<Rightarrow> bool" where
  "dge x y = dle y x"

definition overflow_threshold :: real where
  "overflow_threshold = 2 ^ 1024 - 2 ^ 970"

text \<open>The largest power of two that is a finite double.\<close>

definition largest_power :: real where
  "largest_power = 2 ^ 1023"

definition finite_result :: "real \<Rightarrow> double" where
  "finite_result x =
     (if x \<ge> overflow_threshold then PInf
      else if x \<le> - overflow_threshold then MInf
      else Fin x)"

definition dneg :: "double \<Rightarrow> double" where
  "dneg x = (case x of NaN \<Rightarrow> NaN | MInf \<Rightarrow> PInf | Fin a \<Rightarrow> Fin (- a) | PInf \<Rightarrow> MInf)"

definition dadd :: "double \<Rightarrow> double \<Rightarrow> double" where
  "dadd x y =
     (case x of
        NaN \<Rightarrow> NaN
      | MInf \<Rightarrow> (case y of NaN \<Rightarrow> NaN | MInf \<Rightarrow> MInf | Fin b \<Rightarrow> MInf | PInf \<Rightarrow> NaN)
      | Fin a \<Rightarrow>
          (case y of NaN \<Rightarrow> NaN | MInf \<Rightarrow> MInf | Fin b \<Rightarrow> finite_result (a + b)
           | PInf \<Rightarrow> PInf)
      | PInf \<Rightarrow> (case y of NaN \<Rightarrow> NaN | MInf \<Rightarrow> NaN | Fin b \<Rightarrow> PInf | PInf \<Rightarrow> PInf))"

definition dsub :: "double \<Rightarrow> double \<Rightarrow> double" where
  "dsub x y = dadd x (dneg y)"

text \<open>An infinity times a finite number: NaN for zero, else the infinity of the sign.\<close>

definition inf_times :: "bool \<Rightarrow> real \<Rightarrow> double" where
  "inf_times positive a =
     (if a = 0 then NaN else if (0 < a) = positive then PInf else MInf)"

definition dmul :: "double \<Rightarrow> double \<Rightarrow> double" where
  "dmul x y =
     (case x of
        NaN \<Rightarrow> NaN
      | MInf \<Rightarrow>
          (case y of NaN \<Rightarrow> NaN | MInf \<Rightarrow> PInf | Fin b \<Rightarrow> inf_times False b
           | PInf \<Rightarrow> MInf)
      | Fin a \<Rightarrow>
          (case y of NaN \<Rightarrow> NaN | MInf \<Rightarrow> inf_times False a
           | Fin b \<Rightarrow> finite_result (a * b) | PInf \<Rightarrow> inf_times True a)
      | PInf \<Rightarrow>
          (case y of NaN \<Rightarrow> NaN | MInf \<Rightarrow> MInf | Fin b \<Rightarrow> inf_times True b
           | PInf \<Rightarrow> PInf))"

subsection \<open>tof\_sensor.hpp and input.hpp over the doubles\<close>

record tof_sensor_d =
  min_d :: double
  max_d :: double
  val_d :: double

definition tof_sensor_default_d :: tof_sensor_d where
  "tof_sensor_default_d = \<lparr>min_d = Fin DEFAULT_MIN, max_d = Fin DEFAULT_MAX, val_d = Fin 0\<rparr>"

definition tof_init_d :: "double \<Rightarrow> double \<Rightarrow> tof_sensor_d \<Rightarrow> tof_sensor_d" where
  "tof_init_d sensor_min sensor_max s =
     (let s1 = s\<lparr>min_d := (if dge sensor_min (Fin 0) then sensor_min else Fin 0)\<rparr>;
          s2 = s1\<lparr>max_d := (if dgreater sensor_max sensor_min then sensor_max else Fin 1023)\<rparr>
      in s2)"

definition tof_sensor_new_d :: "double \<Rightarrow> double \<Rightarrow> tof_sensor_d" where
  "tof_sensor_new_d sensor_min sensor_max =
     tof_init_d sensor_min sensor_max tof_sensor_default_d"

definition check_sensor_value_d :: "tof_sensor_d \<Rightarrow> tof_sensor_d" where
  "check_sensor_value_d s =
     (if dless (val_d s) (min_d s) then s\<lparr>val_d := min_d s\<rparr>
      else if dgreater (val_d s) (max_d s) then s\<lparr>val_d := max_d s\<rparr>
      else s)"

text \<open>
  What \<^verbatim>\<open>std::stod\<close> makes of one line of the terminal (after \<^verbatim>\<open>get_double\<close> has
  replaced every comma by a dot): it returns a double, which is NaN for the line
  \<^verbatim>\<open>nan\<close> and an infinity for the line \<^verbatim>\<open>inf\<close>; it throws
  \<^verbatim>\<open>std::invalid_argument\<close>; or it throws \<^verbatim>\<open>std::out_of_range\<close>.
\<close>

datatype stod_result = Value double | Invalid_argument | Out_of_range

text \<open>
  How a call that reads the terminal ends: it returns; it is left by the exception
  \<^verbatim>\<open>std::out_of_range\<close>, which nothing catches; or it never returns.
\<close>

datatype 'a call = Returns 'a | Throws_out_of_range | Never_returns

text \<open>
  \<^verbatim>\<open>input::get_double\<close> on a terminal that holds the given lines. The loop reads a
  line and returns what \<^verbatim>\<open>std::stod\<close> returns; it catches only
  \<^verbatim>\<open>std::invalid_argument\<close> and then reads the next line. When no line is left,
  every further line it reads is empty and invalid: the loop never ends.
\<close>

fun get_double :: "stod_result list \<Rightarrow> double call" where
  "get_double [] = Never_returns"
| "get_double (Value v # ls) = Returns v"
| "get_double (Invalid_argument # ls) = get_double ls"
| "get_double (Out_of_range # ls) = Throws_out_of_range"

text \<open>\<^verbatim>\<open>tof_sensor::read_from_terminal\<close> on a terminal that holds the given lines.\<close>

definition read_from_terminal_d :: "stod_result list \<Rightarrow> tof_sensor_d \<Rightarrow> tof_sensor_d call" where
  "read_from_terminal_d ls s =
     (case get_double ls of
        Returns v \<Rightarrow> Returns (check_sensor_value_d (s\<lparr>val_d := v\<rparr>))
      | Throws_out_of_range \<Rightarrow> Throws_out_of_range
      | Never_returns \<Rightarrow> Never_returns)"

subsection \<open>pid\_controller.hpp over the doubles\<close>

record pid_controller_d =
  target_d :: double
  output_d :: double
  input_d :: double
  kp_d :: double
  ki_d :: double
  kd_d :: double
  integrate_d :: double
  derivate_d :: double
  last_error_d :: double
  output_min_d :: double
  output_max_d :: double

definition pid_controller_default_d :: pid_controller_d where
  "pid_controller_default_d =
     \<lparr>target_d = Fin 0, output_d = Fin 0, input_d = Fin 0, kp_d = Fin 0, ki_d = Fin 0,
      kd_d = Fin 0, integrate_d = Fin 0, derivate_d = Fin 0, last_error_d = Fin 0,
      output_min_d = Fin 0, output_max_d = Fin 0\<rparr>"

definition pid_init_d ::
  "double \<Rightarrow> double \<Rightarrow> double \<Rightarrow> double \<Rightarrow> double \<Rightarrow> double
    \<Rightarrow> pid_controller_d \<Rightarrow> pid_controller_d" where
  "pid_init_d tg omin omax p i d s =
     s\<lparr>target_d := tg, output_min_d := omin, output_max_d := omax, kp_d := p, ki_d := i,
       kd_d := d\<rparr>"

definition pid_controller_new_d ::
  "double \<Rightarrow> double \<Rightarrow> double \<Rightarrow> double \<Rightarrow> double \<Rightarrow> double \<Rightarrow> pid_controller_d" where
  "pid_controller_new_d tg omin omax p i d =
     pid_init_d tg omin omax p i d pid_controller_default_d"

definition check_output_d :: "pid_controller_d \<Rightarrow> pid_controller_d" where
  "check_output_d s =
     (if dless (output_d s) (output_min_d s) then s\<lparr>output_d := output_min_d s\<rparr>
      else if dgreater (output_d s) (output_max_d s) then s\<lparr>output_d := output_max_d s\<rparr>
      else s)"

text \<open>The sum of the output is taken from the left, as the expression of the source is.\<close>

definition regulate_d :: "double \<Rightarrow> pid_controller_d \<Rightarrow> pid_controller_d" where
  "regulate_d new_input s =
     (let err = dsub (target_d s) new_input;
          s1 = s\<lparr>input_d := new_input\<rparr>;
          s2 = s1\<lparr>integrate_d := dadd (integrate_d s1) err\<rparr>;
          s3 = s2\<lparr>derivate_d := dsub err (last_error_d s2)\<rparr>;
          s4 = s3\<lparr>output_d :=
                  dadd (dadd (dadd (target_d s3) (dmul (kp_d s3) err))
                          (dmul (ki_d s3) (integrate_d s3)))
                    (dmul (kd_d s3) (derivate_d s3))\<rparr>;
          s5 = s4\<lparr>last_error_d := err\<rparr>
      in check_output_d s5)"

fun regulate_all_d :: "double list \<Rightarrow> pid_controller_d \<Rightarrow> pid_controller_d" where
  "regulate_all_d [] s = s"
| "regulate_all_d (x # xs) s = regulate_all_d xs (regulate_d x s)"

section \<open>The sensor window\<close>

text \<open>
  C6. \<open>init\<close> stores as minimum the argument \<open>sensor_min\<close> when it is at least 0 and
  0 otherwise, and as maximum the argument \<open>sensor_max\<close> when it is greater than the
  argument \<open>sensor_min\<close> (the argument, not the stored minimum) and 1023 otherwise;
  the value of the sensor is left as it is. Called with -5 and 10 on any sensor, it
  gives the window from 0 to 10.
\<close>

theorem tof_init_window:
  "min_f (tof_init sensor_min sensor_max s) = (if sensor_min \<ge> 0 then sensor_min else 0)
   \<and> max_f (tof_init sensor_min sensor_max s)
       = (if sensor_max > sensor_min then sensor_max else 1023)
   \<and> val (tof_init sensor_min sensor_max s) = val s
   \<and> min_f (tof_init (-5) 10 s) = 0
   \<and> max_f (tof_init (-5) 10 s) = 10"
  by (simp add: tof_init_def)

text \<open>
  C10. With a negative \<open>sensor_min\<close> and a \<open>sensor_max\<close> between it and 0, \<open>init\<close>
  stores the minimum 0 and the maximum \<open>sensor_max\<close>: the stored maximum is below
  the stored minimum, the window is inverted.
\<close>

theorem tof_init_inverted_window:
  assumes "sensor_min < 0" and "sensor_min < sensor_max" and "sensor_max < 0"
  shows "min_f (tof_init sensor_min sensor_max s) = 0
         \<and> max_f (tof_init sensor_min sensor_max s) = sensor_max
         \<and> max_f (tof_init sensor_min sensor_max s) < min_f (tof_init sensor_min sensor_max s)"
  using assms by (simp add: tof_init_def)

theorem tof_init_inverted_window_witness:
  "(-5::real) < 0 \<and> (-5::real) < -3 \<and> (-3::real) < 0
   \<and> min_f (tof_init (-5) (-3) tof_sensor_default) = 0
   \<and> max_f (tof_init (-5) (-3) tof_sensor_default) = -3
   \<and> max_f (tof_init (-5) (-3) tof_sensor_default)
       < min_f (tof_init (-5) (-3) tof_sensor_default)"
  using tof_init_inverted_window [of "-5" "-3" tof_sensor_default] by simp

section \<open>The sensor value\<close>

lemma dle_refl: "dle x y \<Longrightarrow> dle x x \<and> dle y y"
  by (simp add: dle_def split: double.splits)

lemma not_dless_dle: "\<not> dless x y \<Longrightarrow> x \<noteq> NaN \<Longrightarrow> y \<noteq> NaN \<Longrightarrow> dle y x"
  by (simp add: dless_def dle_def split: double.splits)

lemma dle_not_NaN: "dle x y \<Longrightarrow> x \<noteq> NaN \<and> y \<noteq> NaN"
  by (auto simp add: dle_def split: double.splits)

text \<open>
  The two tests of \<open>check_sensor_value\<close> and of \<open>check_output\<close>, on a lower bound
  that is at most the upper one: the result is NaN, when the value is, or lies
  between the bounds.
\<close>

lemma clamp_d:
  assumes "dle lo hi"
  shows "(if dless x lo then lo else if dgreater x hi then hi else x) = NaN \<and> x = NaN
         \<or> dle lo (if dless x lo then lo else if dgreater x hi then hi else x)
           \<and> dle (if dless x lo then lo else if dgreater x hi then hi else x) hi"
proof (cases "x = NaN")
  case True
  then show ?thesis
    by (simp add: dless_def dgreater_def split: double.splits)
next
  case False
  from assms have n: "lo \<noteq> NaN" "hi \<noteq> NaN" "dle lo lo" "dle hi hi"
    using dle_not_NaN dle_refl by blast+
  show ?thesis
    using assms False n by (auto simp add: dgreater_def not_dless_dle)
qed

lemma check_sensor_value_d_window:
  "min_d (check_sensor_value_d s) = min_d s \<and> max_d (check_sensor_value_d s) = max_d s"
  by (simp add: check_sensor_value_d_def)

lemma check_sensor_value_d_in_window:
  assumes "dle (min_d s) (max_d s)" and "val_d s \<noteq> NaN"
  shows "dle (min_d s) (val_d (check_sensor_value_d s))
         \<and> dle (val_d (check_sensor_value_d s)) (max_d s)"
  using clamp_d [OF assms(1), of "val_d s"] assms(2)
  by (auto simp add: check_sensor_value_d_def)

lemma read_from_terminal_d_returns:
  assumes "read_from_terminal_d ls s = Returns s'"
  obtains v where "get_double ls = Returns v"
    and "s' = check_sensor_value_d (s\<lparr>val_d := v\<rparr>)"
  using assms by (cases "get_double ls") (simp_all add: read_from_terminal_d_def)

text \<open>
  C5, as the claim states it, fails, in four ways. \<open>init\<close> never touches the value:
  a sensor constructed with the window from 10 to 20 holds the value 0, below its
  minimum, and a sensor that has read 500 and is then given the window from 0 to
  100 holds a value above its maximum. \<open>check_sensor_value\<close> compares with the
  minimum first: a sensor with the inverted window of \<open>init\<close> called with -5 and -3
  that reads 5 ends with the value -3, below its minimum 0. And both tests of
  \<open>check_sensor_value\<close> are false on NaN: a sensor with the default window that
  reads the line \<^verbatim>\<open>nan\<close> holds NaN, which is not at least its minimum.
\<close>

theorem sensor_invariant_counterexample:
  "\<not> dle (min_d (tof_sensor_new_d (Fin 10) (Fin 20)))
         (val_d (tof_sensor_new_d (Fin 10) (Fin 20)))
   \<and> read_from_terminal_d [Value (Fin 500)] tof_sensor_default_d
       = Returns \<lparr>min_d = Fin 0, max_d = Fin 1023, val_d = Fin 500\<rparr>
   \<and> \<not> dle (val_d (tof_init_d (Fin 0) (Fin 100)
                     \<lparr>min_d = Fin 0, max_d = Fin 1023, val_d = Fin 500\<rparr>))
           (max_d (tof_init_d (Fin 0) (Fin 100)
                     \<lparr>min_d = Fin 0, max_d = Fin 1023, val_d = Fin 500\<rparr>))
   \<and> read_from_terminal_d [Value (Fin 5)] (tof_sensor_new_d (Fin (-5)) (Fin (-3)))
       = Returns \<lparr>min_d = Fin 0, max_d = Fin (-3), val_d = Fin (-3)\<rparr>
   \<and> \<not> dle (min_d \<lparr>min_d = Fin 0, max_d = Fin (-3), val_d = Fin (-3)\<rparr>)
           (val_d \<lparr>min_d = Fin 0, max_d = Fin (-3), val_d = Fin (-3)\<rparr>)
   \<and> read_from_terminal_d [Value NaN] tof_sensor_default_d
       = Returns \<lparr>min_d = Fin 0, max_d = Fin 1023, val_d = NaN\<rparr>
   \<and> dle (min_d \<lparr>min_d = Fin 0, max_d = Fin 1023, val_d = NaN\<rparr>)
         (max_d \<lparr>min_d = Fin 0, max_d = Fin 1023, val_d = NaN\<rparr>)
   \<and> \<not> dle (min_d \<lparr>min_d = Fin 0, max_d = Fin 1023, val_d = NaN\<rparr>)
           (val_d \<lparr>min_d = Fin 0, max_d = Fin 1023, val_d = NaN\<rparr>)"
  by (simp add: tof_sensor_new_d_def tof_init_d_def tof_sensor_default_d_def DEFAULT_MIN_def
      DEFAULT_MAX_def read_from_terminal_d_def check_sensor_value_d_def dle_def dless_def
      dge_def dgreater_def Let_def)

text \<open>
  C5, amended. When \<open>read_from_terminal\<close> returns, the number it has read is not
  NaN, and the minimum of the sensor is at most its maximum, then the value lies
  between the two, and the window is the one of before the call. (The call does
  not return when \<^verbatim>\<open>std::stod\<close> throws \<^verbatim>\<open>std::out_of_range\<close> or when the terminal
  holds no valid line.) The default constructed sensor has its value inside its
  window; \<open>init\<close> leaves the value as it is.
\<close>

theorem sensor_value_in_window:
  "(read_from_terminal_d ls s = Returns s' \<and> get_double ls \<noteq> Returns NaN
      \<and> dle (min_d s) (max_d s) \<longrightarrow>
      dle (min_d s') (val_d s') \<and> dle (val_d s') (max_d s')
      \<and> min_d s' = min_d s \<and> max_d s' = max_d s)
   \<and> dle (min_d tof_sensor_default_d) (val_d tof_sensor_default_d)
   \<and> dle (val_d tof_sensor_default_d) (max_d tof_sensor_default_d)
   \<and> val_d (tof_init_d sensor_min sensor_max s) = val_d s"
proof (intro conjI impI)
  assume a: "read_from_terminal_d ls s = Returns s' \<and> get_double ls \<noteq> Returns NaN
      \<and> dle (min_d s) (max_d s)"
  then obtain v where v: "get_double ls = Returns v"
    and s': "s' = check_sensor_value_d (s\<lparr>val_d := v\<rparr>)"
    by (auto elim: read_from_terminal_d_returns)
  let ?t = "s\<lparr>val_d := v\<rparr>"
  from a have w: "dle (min_d ?t) (max_d ?t)"
    by simp
  from a v have n: "val_d ?t \<noteq> NaN"
    by simp
  show "dle (min_d s') (val_d s')" and "dle (val_d s') (max_d s')"
    using check_sensor_value_d_in_window [OF w n] check_sensor_value_d_window [of ?t]
    by (simp_all add: s')
  show "min_d s' = min_d s" and "max_d s' = max_d s"
    using check_sensor_value_d_window [of ?t] by (simp_all add: s')
next
  show "dle (min_d tof_sensor_default_d) (val_d tof_sensor_default_d)"
    and "dle (val_d tof_sensor_default_d) (max_d tof_sensor_default_d)"
    by (simp_all add: tof_sensor_default_d_def DEFAULT_MIN_def DEFAULT_MAX_def dle_def)
  show "val_d (tof_init_d sensor_min sensor_max s) = val_d s"
    by (simp add: tof_init_d_def)
qed

theorem sensor_value_in_window_witness:
  "read_from_terminal_d [Invalid_argument, Value (Fin 2000)] tof_sensor_default_d
     = Returns \<lparr>min_d = Fin 0, max_d = Fin 1023, val_d = Fin 1023\<rparr>
   \<and> get_double [Invalid_argument, Value (Fin 2000)] \<noteq> Returns NaN
   \<and> dle (min_d tof_sensor_default_d) (max_d tof_sensor_default_d)
   \<and> dle (min_d \<lparr>min_d = Fin 0, max_d = Fin 1023, val_d = Fin 1023\<rparr>)
         (val_d \<lparr>min_d = Fin 0, max_d = Fin 1023, val_d = Fin 1023\<rparr>)
   \<and> dle (val_d \<lparr>min_d = Fin 0, max_d = Fin 1023, val_d = Fin 1023\<rparr>)
         (max_d \<lparr>min_d = Fin 0, max_d = Fin 1023, val_d = Fin 1023\<rparr>)"
proof -
  have r: "read_from_terminal_d [Invalid_argument, Value (Fin 2000)] tof_sensor_default_d
             = Returns \<lparr>min_d = Fin 0, max_d = Fin 1023, val_d = Fin 1023\<rparr>"
    by (simp add: read_from_terminal_d_def check_sensor_value_d_def tof_sensor_default_d_def
        DEFAULT_MIN_def DEFAULT_MAX_def dless_def dgreater_def)
  have g: "get_double [Invalid_argument, Value (Fin 2000)] \<noteq> Returns NaN"
    by simp
  have w: "dle (min_d tof_sensor_default_d) (max_d tof_sensor_default_d)"
    by (simp add: tof_sensor_default_d_def DEFAULT_MIN_def DEFAULT_MAX_def dle_def)
  from sensor_value_in_window
         [of "[Invalid_argument, Value (Fin 2000)]" tof_sensor_default_d
             "\<lparr>min_d = Fin 0, max_d = Fin 1023, val_d = Fin 1023\<rparr>"]
       r g w
  show ?thesis
    by blast
qed

section \<open>The controller\<close>

text \<open>
  C9. \<open>init\<close> sets the target, the two output bounds and the three gains to its
  arguments, and leaves the integral, the last error, the output, the stored input
  and the derivative of the controller as they were.
\<close>

theorem pid_init_frame:
  "target (pid_init tg omin omax p i d s) = tg
   \<and> output_min (pid_init tg omin omax p i d s) = omin
   \<and> output_max (pid_init tg omin omax p i d s) = omax
   \<and> kp (pid_init tg omin omax p i d s) = p
   \<and> ki (pid_init tg omin omax p i d s) = i
   \<and> kd (pid_init tg omin omax p i d s) = d
   \<and> integrate (pid_init tg omin omax p i d s) = integrate s
   \<and> last_error (pid_init tg omin omax p i d s) = last_error s
   \<and> output (pid_init tg omin omax p i d s) = output s
   \<and> input (pid_init tg omin omax p i d s) = input s
   \<and> derivate (pid_init tg omin omax p i d s) = derivate s"
  by (simp add: pid_init_def)



subsection \<open>The output and its bounds\<close>

lemma check_output_d_bounded:
  assumes "dle (output_min_d s) (output_max_d s)"
  shows "output_d (check_output_d s) = NaN
         \<or> dle (output_min_d s) (output_d (check_output_d s))
           \<and> dle (output_d (check_output_d s)) (output_max_d s)"
  using clamp_d [OF assms, of "output_d s"] by (auto simp add: check_output_d_def)

lemma regulate_d_frame:
  "output_min_d (regulate_d x s) = output_min_d s
   \<and> output_max_d (regulate_d x s) = output_max_d s"
  by (simp add: regulate_d_def Let_def check_output_d_def)

lemma regulate_d_bounded:
  assumes "dle (output_min_d s) (output_max_d s)"
  shows "output_d (regulate_d x s) = NaN
         \<or> dle (output_min_d s) (output_d (regulate_d x s))
           \<and> dle (output_d (regulate_d x s)) (output_max_d s)"
proof -
  obtain t where t: "regulate_d x s = check_output_d t"
    and f: "output_min_d t = output_min_d s" "output_max_d t = output_max_d s"
    by (simp add: regulate_d_def Let_def)
  from assms f have "dle (output_min_d t) (output_max_d t)"
    by simp
  then show ?thesis
    using check_output_d_bounded [of t] by (simp add: t f)
qed

lemma regulate_all_d_frame:
  "output_min_d (regulate_all_d xs s) = output_min_d s
   \<and> output_max_d (regulate_all_d xs s) = output_max_d s"
  by (induction xs arbitrary: s) (simp_all add: regulate_d_frame)

lemma regulate_all_d_snoc:
  "regulate_all_d (xs @ [x]) s = regulate_d x (regulate_all_d xs s)"
  by (induction xs arbitrary: s) simp_all

lemma regulate_all_d_bounded:
  assumes "dle (output_min_d s) (output_max_d s)" and "xs \<noteq> []"
  shows "output_d (regulate_all_d xs s) = NaN
         \<or> dle (output_min_d s) (output_d (regulate_all_d xs s))
           \<and> dle (output_d (regulate_all_d xs s)) (output_max_d s)"
proof -
  from \<open>xs \<noteq> []\<close> obtain ys y where xs: "xs = ys @ [y]"
    by (cases xs rule: rev_cases) auto
  let ?t = "regulate_all_d ys s"
  have "dle (output_min_d ?t) (output_max_d ?t)"
    using assms(1) by (simp add: regulate_all_d_frame)
  then have "output_d (regulate_d y ?t) = NaN
             \<or> dle (output_min_d ?t) (output_d (regulate_d y ?t))
               \<and> dle (output_d (regulate_d y ?t)) (output_max_d ?t)"
    by (rule regulate_d_bounded)
  then show ?thesis
    by (simp add: xs regulate_all_d_snoc regulate_all_d_frame)
qed

lemma largest_power_bounds:
  "180 < largest_power" "largest_power < overflow_threshold"
  "overflow_threshold \<le> largest_power + largest_power"
  by (simp_all add: largest_power_def overflow_threshold_def)

lemma finite_result_small: "\<bar>x\<bar> \<le> 1000000 \<Longrightarrow> finite_result x = Fin x"
proof -
  have "(1000000::real) < overflow_threshold"
    by (simp add: overflow_threshold_def)
  then show "\<bar>x\<bar> \<le> 1000000 \<Longrightarrow> finite_result x = Fin x"
    unfolding finite_result_def by (auto simp add: abs_le_iff)
qed

lemma finite_result_largest_power:
  "finite_result largest_power = Fin largest_power"
  "finite_result (- largest_power) = Fin (- largest_power)"
  "finite_result (largest_power + largest_power) = PInf"
  "finite_result (- largest_power - largest_power) = MInf"
  "finite_result (2 * largest_power) = PInf"
  "finite_result (- (2 * largest_power)) = MInf"
  using largest_power_bounds by (simp_all add: finite_result_def)

lemma largest_power_arith:
  "dsub (Fin 0) (Fin (- largest_power)) = Fin largest_power"
  "dsub (Fin 0) (Fin largest_power) = Fin (- largest_power)"
  "dadd (Fin 0) (Fin largest_power) = Fin largest_power"
  "dadd (Fin 0) (Fin (- largest_power)) = Fin (- largest_power)"
  "dadd (Fin largest_power) (Fin 0) = Fin largest_power"
  "dadd (Fin largest_power) (Fin largest_power) = PInf"
  "dsub (Fin largest_power) (Fin 0) = Fin largest_power"
  "dsub (Fin largest_power) (Fin largest_power) = Fin 0"
  "dsub (Fin (- largest_power)) (Fin largest_power) = MInf"
  "dmul (Fin 1) (Fin largest_power) = Fin largest_power"
  "dmul (Fin 1) (Fin (- largest_power)) = Fin (- largest_power)"
  "dmul (Fin 0) (Fin largest_power) = Fin 0"
  by (simp_all add: dadd_def dsub_def dneg_def dmul_def finite_result_largest_power
      finite_result_small)

lemma special_arith:
  "dmul (Fin 0) PInf = NaN" "dmul (Fin 1) PInf = PInf" "dmul (Fin 1) MInf = MInf"
  "dmul (Fin 1) (Fin 0) = Fin 0" "dmul (Fin 0) (Fin 0) = Fin 0"
  "dadd PInf (Fin x) = PInf" "dadd (Fin x) PInf = PInf" "dadd PInf MInf = NaN"
  "dadd (Fin x) NaN = NaN" "dadd NaN (Fin x) = NaN" "dadd (Fin 0) (Fin 0) = Fin 0"
  by (simp_all add: dadd_def dmul_def inf_times_def finite_result_small)

lemma largest_power_compare:
  "\<not> dless (Fin largest_power) (Fin 0)" "dgreater (Fin largest_power) (Fin 180)"
  "\<not> dless PInf (Fin 0)" "dgreater PInf (Fin 180)"
  "\<not> dless NaN (Fin 0)" "\<not> dgreater NaN (Fin 180)"
  using largest_power_bounds by (simp_all add: dless_def dgreater_def)

text \<open>
  A controller with target 0, bounds 0 and 180 and the gains 1, 0 and 0 is given
  the input \<open>- 2^1023\<close> twice. The second integral overflows, and zero times the
  infinity is NaN.
\<close>

lemma zero_gain_trace:
  "regulate_d (Fin (- largest_power))
     (pid_controller_new_d (Fin 0) (Fin 0) (Fin 180) (Fin 1) (Fin 0) (Fin 0)) =
     \<lparr>target_d = Fin 0, output_d = Fin 180, input_d = Fin (- largest_power), kp_d = Fin 1,
      ki_d = Fin 0, kd_d = Fin 0, integrate_d = Fin largest_power,
      derivate_d = Fin largest_power, last_error_d = Fin largest_power,
      output_min_d = Fin 0, output_max_d = Fin 180\<rparr>"
  "regulate_d (Fin (- largest_power))
     \<lparr>target_d = Fin 0, output_d = Fin 180, input_d = Fin (- largest_power), kp_d = Fin 1,
      ki_d = Fin 0, kd_d = Fin 0, integrate_d = Fin largest_power,
      derivate_d = Fin largest_power, last_error_d = Fin largest_power,
      output_min_d = Fin 0, output_max_d = Fin 180\<rparr> =
     \<lparr>target_d = Fin 0, output_d = NaN, input_d = Fin (- largest_power), kp_d = Fin 1,
      ki_d = Fin 0, kd_d = Fin 0, integrate_d = PInf, derivate_d = Fin 0,
      last_error_d = Fin largest_power, output_min_d = Fin 0, output_max_d = Fin 180\<rparr>"
  by (simp_all add: pid_controller_new_d_def pid_init_d_def pid_controller_default_d_def
      regulate_d_def check_output_d_def Let_def largest_power_arith special_arith
      largest_power_compare)

text \<open>
  With the gains 1, 1 and 1 and the inputs \<open>- 2^1023\<close>, \<open>- 2^1023\<close> and \<open>2^1023\<close>:
  the integral is the positive infinity after the second call, the derivative the
  negative one in the third, and their sum is NaN.
\<close>

lemma unit_gain_trace:
  "regulate_d (Fin (- largest_power))
     (pid_controller_new_d (Fin 0) (Fin 0) (Fin 180) (Fin 1) (Fin 1) (Fin 1)) =
     \<lparr>target_d = Fin 0, output_d = Fin 180, input_d = Fin (- largest_power), kp_d = Fin 1,
      ki_d = Fin 1, kd_d = Fin 1, integrate_d = Fin largest_power,
      derivate_d = Fin largest_power, last_error_d = Fin largest_power,
      output_min_d = Fin 0, output_max_d = Fin 180\<rparr>"
  "regulate_d (Fin (- largest_power))
     \<lparr>target_d = Fin 0, output_d = Fin 180, input_d = Fin (- largest_power), kp_d = Fin 1,
      ki_d = Fin 1, kd_d = Fin 1, integrate_d = Fin largest_power,
      derivate_d = Fin largest_power, last_error_d = Fin largest_power,
      output_min_d = Fin 0, output_max_d = Fin 180\<rparr> =
     \<lparr>target_d = Fin 0, output_d = Fin 180, input_d = Fin (- largest_power), kp_d = Fin 1,
      ki_d = Fin 1, kd_d = Fin 1, integrate_d = PInf, derivate_d = Fin 0,
      last_error_d = Fin largest_power, output_min_d = Fin 0, output_max_d = Fin 180\<rparr>"
  "regulate_d (Fin largest_power)
     \<lparr>target_d = Fin 0, output_d = Fin 180, input_d = Fin (- largest_power), kp_d = Fin 1,
      ki_d = Fin 1, kd_d = Fin 1, integrate_d = PInf, derivate_d = Fin 0,
      last_error_d = Fin largest_power, output_min_d = Fin 0, output_max_d = Fin 180\<rparr> =
     \<lparr>target_d = Fin 0, output_d = NaN, input_d = Fin largest_power, kp_d = Fin 1,
      ki_d = Fin 1, kd_d = Fin 1, integrate_d = PInf, derivate_d = MInf,
      last_error_d = Fin (- largest_power), output_min_d = Fin 0, output_max_d = Fin 180\<rparr>"
  by (simp_all add: pid_controller_new_d_def pid_init_d_def pid_controller_default_d_def
      regulate_d_def check_output_d_def Let_def largest_power_arith special_arith
      largest_power_compare)

text \<open>
  C2, as the claim states it, fails. Both controllers above have the lower bound 0
  and the upper bound 180, and every input is a finite number. After the last call
  the output is NaN, which passes both tests of \<open>check_output\<close> and is neither at
  least 0 nor at most 180.
\<close>

theorem output_bound_counterexample:
  "dle (output_min_d (pid_controller_new_d (Fin 0) (Fin 0) (Fin 180) (Fin 1) (Fin 0) (Fin 0)))
       (output_max_d (pid_controller_new_d (Fin 0) (Fin 0) (Fin 180) (Fin 1) (Fin 0) (Fin 0)))
   \<and> output_d (regulate_all_d [Fin (- largest_power), Fin (- largest_power)]
        (pid_controller_new_d (Fin 0) (Fin 0) (Fin 180) (Fin 1) (Fin 0) (Fin 0))) = NaN
   \<and> dle (output_min_d (pid_controller_new_d (Fin 0) (Fin 0) (Fin 180) (Fin 1) (Fin 1) (Fin 1)))
         (output_max_d (pid_controller_new_d (Fin 0) (Fin 0) (Fin 180) (Fin 1) (Fin 1) (Fin 1)))
   \<and> output_d (regulate_all_d [Fin (- largest_power), Fin (- largest_power), Fin largest_power]
        (pid_controller_new_d (Fin 0) (Fin 0) (Fin 180) (Fin 1) (Fin 1) (Fin 1))) = NaN
   \<and> \<not> dle (Fin 0) NaN \<and> \<not> dle NaN (Fin 180)"
  by (simp add: zero_gain_trace unit_gain_trace)
    (simp add: pid_controller_new_d_def pid_init_d_def dle_def)

text \<open>
  C2, amended. A controller whose lower output bound is at most its upper one is
  given the inputs of a list \<open>xs\<close>, one call of \<open>regulate\<close> each. After each call,
  the \<open>k\<close>-th for every \<open>k\<close> from 1 to the length of \<open>xs\<close>, the output is NaN or lies
  between the two bounds, which are still the ones of the start.
\<close>

theorem regulate_output_bounds:
  assumes "dle (output_min_d s) (output_max_d s)" and "0 < k" and "k \<le> length xs"
  shows "(output_d (regulate_all_d (take k xs) s) = NaN
          \<or> dle (output_min_d s) (output_d (regulate_all_d (take k xs) s))
            \<and> dle (output_d (regulate_all_d (take k xs) s)) (output_max_d s))
         \<and> output_min_d (regulate_all_d (take k xs) s) = output_min_d s
         \<and> output_max_d (regulate_all_d (take k xs) s) = output_max_d s"
proof -
  have "take k xs \<noteq> []"
    using assms(2,3) by auto
  with assms(1) show ?thesis
    using regulate_all_d_bounded [of s "take k xs"] by (simp add: regulate_all_d_frame)
qed

theorem regulate_output_bounds_witness:
  "dle (output_min_d (pid_controller_new_d (Fin 90) (Fin 0) (Fin 180) (Fin 1) (Fin 0) (Fin 0)))
       (output_max_d (pid_controller_new_d (Fin 90) (Fin 0) (Fin 180) (Fin 1) (Fin 0) (Fin 0)))
   \<and> (0::nat) < 2 \<and> (2::nat) \<le> length [Fin 1000, Fin (-1000), Fin 72]
   \<and> output_d (regulate_all_d (take 2 [Fin 1000, Fin (-1000), Fin 72])
        (pid_controller_new_d (Fin 90) (Fin 0) (Fin 180) (Fin 1) (Fin 0) (Fin 0))) = Fin 180
   \<and> dle (output_min_d (pid_controller_new_d (Fin 90) (Fin 0) (Fin 180) (Fin 1) (Fin 0) (Fin 0)))
         (output_d (regulate_all_d (take 2 [Fin 1000, Fin (-1000), Fin 72])
            (pid_controller_new_d (Fin 90) (Fin 0) (Fin 180) (Fin 1) (Fin 0) (Fin 0))))
   \<and> dle (output_d (regulate_all_d (take 2 [Fin 1000, Fin (-1000), Fin 72])
            (pid_controller_new_d (Fin 90) (Fin 0) (Fin 180) (Fin 1) (Fin 0) (Fin 0))))
         (output_max_d (pid_controller_new_d (Fin 90) (Fin 0) (Fin 180) (Fin 1) (Fin 0) (Fin 0)))"
proof -
  let ?s = "pid_controller_new_d (Fin 90) (Fin 0) (Fin 180) (Fin 1) (Fin 0) (Fin 0)"
  have b: "dle (output_min_d ?s) (output_max_d ?s)"
    by (simp add: pid_controller_new_d_def pid_init_d_def dle_def)
  have k: "(0::nat) < 2" "(2::nat) \<le> length [Fin 1000, Fin (-1000), Fin 72]"
    by simp_all
  have v: "output_d (regulate_all_d (take 2 [Fin 1000, Fin (-1000), Fin 72]) ?s) = Fin 180"
    by (simp add: numeral_2_eq_2 pid_controller_new_d_def pid_init_d_def
        pid_controller_default_d_def regulate_d_def check_output_d_def Let_def
        dadd_def dsub_def dneg_def dmul_def dless_def dgreater_def finite_result_small)
  have n: "output_d (regulate_all_d (take 2 [Fin 1000, Fin (-1000), Fin 72]) ?s) \<noteq> NaN"
    by (simp only: v) simp
  from regulate_output_bounds [OF b k] b k v n show ?thesis
    by blast
qed

subsection \<open>The input at the target\<close>

lemma regulate_at_target:
  assumes "integrate s = 0" and "last_error s = 0"
    and "output_min s \<le> target s" and "target s \<le> output_max s"
  shows "regulate (target s) s =
           s\<lparr>input := target s, integrate := 0, derivate := 0, output := target s,
             last_error := 0\<rparr>"
  using assms by (simp add: regulate_def check_output_def Let_def)

lemma regulate_at_target_twice:
  assumes "integrate s = 0" and "last_error s = 0"
    and "output_min s \<le> target s" and "target s \<le> output_max s"
  shows "regulate (target s) (regulate (target s) s) = regulate (target s) s"
  using assms by (simp add: regulate_def check_output_def Let_def)

lemma regulate_fixed_point:
  assumes "regulate x s = s"
  shows "regulate_all (replicate n x) s = s"
  by (induction n) (simp_all add: assms)

lemma regulate_all_at_target:
  assumes "integrate s = 0" and "last_error s = 0"
    and "output_min s \<le> target s" and "target s \<le> output_max s"
  shows "regulate_all (replicate (Suc n) (target s)) s =
           s\<lparr>input := target s, integrate := 0, derivate := 0, output := target s,
             last_error := 0\<rparr>"
proof -
  have "regulate_all (replicate (Suc n) (target s)) s
          = regulate_all (replicate n (target s)) (regulate (target s) s)"
    by simp
  also have "\<dots> = regulate (target s) s"
    using regulate_at_target_twice [OF assms] by (rule regulate_fixed_point)
  finally show ?thesis
    by (simp only: regulate_at_target [OF assms])
qed

text \<open>
  C7. A controller is constructed with a target between its two output bounds and
  then \<open>regulate\<close> is called \<open>n\<close> times with the target as input. After the \<open>n\<close>-th
  call, for every \<open>n\<close> from 1 on, the error (the target minus the stored input), the
  integral, the derivative and the last error are 0 and the output is the target.
\<close>

theorem zero_error_steady_state:
  assumes "omin \<le> tg" and "tg \<le> omax" and "0 < n"
  shows "target (regulate_all (replicate n tg) (pid_controller_new tg omin omax p i d))
           - input (regulate_all (replicate n tg) (pid_controller_new tg omin omax p i d)) = 0
       \<and> integrate (regulate_all (replicate n tg) (pid_controller_new tg omin omax p i d)) = 0
       \<and> derivate (regulate_all (replicate n tg) (pid_controller_new tg omin omax p i d)) = 0
       \<and> last_error (regulate_all (replicate n tg) (pid_controller_new tg omin omax p i d)) = 0
       \<and> output (regulate_all (replicate n tg) (pid_controller_new tg omin omax p i d)) = tg"
proof -
  let ?s = "pid_controller_new tg omin omax p i d"
  have f: "integrate ?s = 0" "last_error ?s = 0" "target ?s = tg"
    "output_min ?s = omin" "output_max ?s = omax"
    by (simp_all add: pid_controller_new_def pid_init_def pid_controller_default_def)
  from \<open>0 < n\<close> obtain m where n: "n = Suc m"
    by (cases n) auto
  have "regulate_all (replicate (Suc m) (target ?s)) ?s =
          ?s\<lparr>input := target ?s, integrate := 0, derivate := 0, output := target ?s,
             last_error := 0\<rparr>"
    by (rule regulate_all_at_target) (simp_all add: f assms)
  then show ?thesis
    by (simp add: n f)
qed

theorem zero_error_steady_state_witness:
  "(0::real) \<le> 90 \<and> (90::real) \<le> 180 \<and> (0::nat) < 3
   \<and> integrate (regulate_all (replicate 3 90) (pid_controller_new 90 0 180 1 0.01 0.1)) = 0
   \<and> derivate (regulate_all (replicate 3 90) (pid_controller_new 90 0 180 1 0.01 0.1)) = 0
   \<and> last_error (regulate_all (replicate 3 90) (pid_controller_new 90 0 180 1 0.01 0.1)) = 0
   \<and> output (regulate_all (replicate 3 90) (pid_controller_new 90 0 180 1 0.01 0.1)) = 90"
  using zero_error_steady_state [of 0 90 180 3 1 "0.01" "0.1"] by simp

section \<open>The servo\<close>

lemma servo_default_eq:
  "servo_default =
     \<lparr>pid = \<lparr>target = 90, output = 0, input = 0, kp = 1, ki = 0.01, kd = 0.1,
             integrate = 0, derivate = 0, last_error = 0, output_min = 0, output_max = 180\<rparr>,
      left_sensor = \<lparr>min_f = 0, max_f = 1023, val = 0\<rparr>,
      right_sensor = \<lparr>min_f = 0, max_f = 1023, val = 0\<rparr>\<rparr>"
  by (simp add: servo_default_def servo_new_def servo_init_def tof_init_def pid_init_def
      tof_sensor_default_def pid_controller_default_def DEFAULT_MIN_def DEFAULT_MAX_def Let_def)

lemma read_inputs_default:
  assumes "0 \<le> l" and "l \<le> 1023" and "0 \<le> r" and "r \<le> 1023"
  shows "read_inputs l r servo_default =
     \<lparr>pid = \<lparr>target = 90, output = 0, input = 0, kp = 1, ki = 0.01, kd = 0.1,
             integrate = 0, derivate = 0, last_error = 0, output_min = 0, output_max = 180\<rparr>,
      left_sensor = \<lparr>min_f = 0, max_f = 1023, val = l\<rparr>,
      right_sensor = \<lparr>min_f = 0, max_f = 1023, val = r\<rparr>\<rparr>"
  using assms
  by (simp add: servo_default_eq read_inputs_def read_from_terminal_def check_sensor_value_def
      Let_def)

lemma run_read_inputs:
  "run l r s =
     (case input_mapped (read_inputs l r s) of
        None \<Rightarrow> None
      | Some m \<Rightarrow> Some ((read_inputs l r s)\<lparr>pid := regulate m (pid (read_inputs l r s))\<rparr>))"
  unfolding run_def read_inputs_def Let_def by (rule refl)

subsection \<open>The left sensor at 500, the right sensor at 700\<close>

lemma scenario_ratio: "input_ratio (read_inputs 500 700 servo_default) = Some (823 / 2046)"
  by (simp add: read_inputs_default input_ratio_def input_difference_def input_range_def
      tof_input_range_def Let_def)

lemma scenario_mapped: "input_mapped (read_inputs 500 700 servo_default) = Some (24690 / 341)"
  by (simp add: input_mapped_def scenario_ratio) (simp add: read_inputs_default)

lemma scenario_regulate:
  "regulate (24690 / 341) (pid (read_inputs 500 700 servo_default)) =
     \<lparr>target = 90, output = 37350 / 341, input = 24690 / 341, kp = 1, ki = 0.01, kd = 0.1,
      integrate = 6000 / 341, derivate = 6000 / 341, last_error = 6000 / 341,
      output_min = 0, output_max = 180\<rparr>"
  by (simp add: read_inputs_default regulate_def check_output_def Let_def)

text \<open>
  C4, as the claim states it, fails. The servo constructed with its default
  arguments (window from 0 to 1023, target 90, gains 1, 0.01 and 0.1, output bounds
  0 and 180) reads 500 on the left and 700 on the right. Then \<open>input_ratio\<close> is
  823/2046, further than 0.001 from the 0.4007 of the claim; \<open>input_mapped\<close> is
  24690/341, further than 0.25 from 72.13; \<open>regulate\<close> on the mapped input leaves
  the error 6000/341, further than 0.25 from 17.87, and the output 37350/341,
  further than 0.25 from 109.84.
\<close>

theorem scenario_A_counterexample:
  "input_ratio (read_inputs 500 700 servo_default) = Some (823 / 2046)
   \<and> \<not> \<bar>823 / 2046 - 0.4007\<bar> \<le> (0.001::real)
   \<and> input_mapped (read_inputs 500 700 servo_default) = Some (24690 / 341)
   \<and> \<not> \<bar>24690 / 341 - 72.13\<bar> \<le> (0.25::real)
   \<and> last_error (regulate (24690 / 341) (pid (read_inputs 500 700 servo_default)))
       = 6000 / 341
   \<and> \<not> \<bar>6000 / 341 - 17.87\<bar> \<le> (0.25::real)
   \<and> output (regulate (24690 / 341) (pid (read_inputs 500 700 servo_default)))
       = 37350 / 341
   \<and> \<not> \<bar>37350 / 341 - 109.84\<bar> \<le> (0.25::real)"
  by (simp add: scenario_ratio scenario_mapped scenario_regulate)

text \<open>
  C4, amended. In that servo \<open>input_difference\<close> is -200, \<open>input_range\<close> is 1023,
  \<open>input_ratio\<close> is 823/2046, which is 0.4022 to four decimals, and \<open>input_mapped\<close>
  is 24690/341, which is 72.40 to two decimals. One call of \<open>regulate\<close> on the
  mapped input leaves the error, the integral and the derivative at 6000/341,
  which is 17.60 to two decimals, and the output at 37350/341, which is 109.53 to
  two decimals: the target plus the three weighted terms, between the bounds 0 and
  180 and so not clamped. \<open>run\<close> with the two readings ends in that state.
\<close>

theorem scenario_A_values:
  "input_difference (read_inputs 500 700 servo_default) = - 200
   \<and> input_range (read_inputs 500 700 servo_default) = 1023
   \<and> input_ratio (read_inputs 500 700 servo_default) = Some (823 / 2046)
   \<and> \<bar>823 / 2046 - 0.4022\<bar> \<le> (0.00005::real)
   \<and> input_mapped (read_inputs 500 700 servo_default) = Some (24690 / 341)
   \<and> \<bar>24690 / 341 - 72.40\<bar> \<le> (0.005::real)
   \<and> regulate (24690 / 341) (pid (read_inputs 500 700 servo_default)) =
       \<lparr>target = 90, output = 37350 / 341, input = 24690 / 341, kp = 1, ki = 0.01, kd = 0.1,
        integrate = 6000 / 341, derivate = 6000 / 341, last_error = 6000 / 341,
        output_min = 0, output_max = 180\<rparr>
   \<and> \<bar>6000 / 341 - 17.60\<bar> \<le> (0.005::real)
   \<and> \<bar>37350 / 341 - 109.53\<bar> \<le> (0.005::real)
   \<and> 37350 / 341 = 90 + 1 * (6000 / 341) + 0.01 * (6000 / 341) + 0.1 * (6000 / (341::real))
   \<and> (0::real) \<le> 37350 / 341 \<and> 37350 / 341 \<le> (180::real)
   \<and> run 500 700 servo_default =
       Some ((read_inputs 500 700 servo_default)
               \<lparr>pid := regulate (24690 / 341) (pid (read_inputs 500 700 servo_default))\<rparr>)"
proof -
  have "input_difference (read_inputs 500 700 servo_default) = - 200"
    by (simp add: read_inputs_default input_difference_def)
  moreover have "input_range (read_inputs 500 700 servo_default) = 1023"
    by (simp add: read_inputs_default input_range_def tof_input_range_def)
  moreover have "run 500 700 servo_default =
       Some ((read_inputs 500 700 servo_default)
               \<lparr>pid := regulate (24690 / 341) (pid (read_inputs 500 700 servo_default))\<rparr>)"
    by (simp add: run_read_inputs scenario_mapped)
  ultimately show ?thesis
    by (simp add: scenario_ratio scenario_mapped scenario_regulate)
qed

end
